theory Spec2Isabelle
  imports Complex_Main
begin

section \<open>Numbers, strings and arrays of the source language\<close>

text \<open>
  The program is TypeScript. Its \<^verbatim>\<open>number\<close> is modelled as \<^typ>\<open>real\<close>: every
  arithmetic operation is the exact one, so rounding, \<^verbatim>\<open>NaN\<close> and the infinities of
  IEEE doubles are outside this model; a later section follows the computation of the
  scale once more on numbers that may be \<^verbatim>\<open>NaN\<close>. Division by zero is \<open>0\<close> in HOL where the program
  gets an infinity or \<^verbatim>\<open>NaN\<close>; the only division by a variable is the aspect ratio
  \<^verbatim>\<open>window.innerWidth / window.innerHeight\<close>, which reaches the drag position only.

  A string is a list of bytes, the UTF-8 encoding of the source's literal. The literals
  of the source are Chinese; each constant below gives the code points and a translation.
  \<open>region_Initialising\<close> is the first value of the React state \<^verbatim>\<open>activeRegion\<close>,
  \<open>status_Initial\<close> that of \<^verbatim>\<open>gestureStatus\<close>.
\<close>

definition js_rem :: "real \<Rightarrow> real \<Rightarrow> real" where
  \<comment> \<open>The operator \<^verbatim>\<open>a % b\<close>: the remainder of the division truncated towards zero,
      with the sign of the dividend.\<close>
  "js_rem a b = a - b * of_int (if a / b < 0 then \<lceil>a / b\<rceil> else \<lfloor>a / b\<rfloor>)"

definition arr_at :: "'a list \<Rightarrow> nat \<Rightarrow> 'a option" where
  \<comment> \<open>An array read \<^verbatim>\<open>xs[i]\<close>: \<^verbatim>\<open>undefined\<close> out of range, here \<open>None\<close>.\<close>
  "arr_at xs i = (if i < length xs then Some (xs ! i) else None)"

definition region_AfricaEurope :: string where
  \<comment> \<open>U+975E U+6D32 " / " U+6B27 U+6D32: Africa / Europe\<close>
  "region_AfricaEurope =
     [CHR 0xE9, CHR 0x9D, CHR 0x9E, CHR 0xE6, CHR 0xB4, CHR 0xB2, CHR 0x20, CHR 0x2F,
      CHR 0x20, CHR 0xE6, CHR 0xAC, CHR 0xA7, CHR 0xE6, CHR 0xB4, CHR 0xB2]"

definition region_AmericasEast :: string where
  \<comment> \<open>U+7F8E U+6D32 " (" U+4E1C U+90E8 ")": Americas (East)\<close>
  "region_AmericasEast =
     [CHR 0xE7, CHR 0xBE, CHR 0x8E, CHR 0xE6, CHR 0xB4, CHR 0xB2, CHR 0x20, CHR 0x28,
      CHR 0xE4, CHR 0xB8, CHR 0x9C, CHR 0xE9, CHR 0x83, CHR 0xA8, CHR 0x29]"

definition region_Pacific :: string where
  \<comment> \<open>U+592A U+5E73 U+6D0B: Pacific\<close>
  "region_Pacific =
     [CHR 0xE5, CHR 0xA4, CHR 0xAA, CHR 0xE5, CHR 0xB9, CHR 0xB3, CHR 0xE6, CHR 0xB4, CHR 0x8B]"

definition region_AsiaAustralia :: string where
  \<comment> \<open>U+4E9A U+6D32 " / " U+6FB3 U+6D32: Asia / Australia\<close>
  "region_AsiaAustralia =
     [CHR 0xE4, CHR 0xBA, CHR 0x9A, CHR 0xE6, CHR 0xB4, CHR 0xB2, CHR 0x20, CHR 0x2F,
      CHR 0x20, CHR 0xE6, CHR 0xBE, CHR 0xB3, CHR 0xE6, CHR 0xB4, CHR 0xB2]"

definition region_Atlantic :: string where
  \<comment> \<open>U+5927 U+897F U+6D0B: Atlantic\<close>
  "region_Atlantic =
     [CHR 0xE5, CHR 0xA4, CHR 0xA7, CHR 0xE8, CHR 0xA5, CHR 0xBF, CHR 0xE6, CHR 0xB4, CHR 0x8B]"

definition region_Initialising :: string where
  \<comment> \<open>U+521D U+59CB U+5316 U+4E2D "...": initialising...\<close>
  "region_Initialising =
     [CHR 0xE5, CHR 0x88, CHR 0x9D, CHR 0xE5, CHR 0xA7, CHR 0x8B, CHR 0xE5, CHR 0x8C,
      CHR 0x96, CHR 0xE4, CHR 0xB8, CHR 0xAD, CHR 0x2E, CHR 0x2E, CHR 0x2E]"

definition status_LeftDragging :: string where
  \<comment> \<open>U+5DE6 U+624B ": " U+62D6 U+62FD U+4E2D: left hand: dragging\<close>
  "status_LeftDragging =
     [CHR 0xE5, CHR 0xB7, CHR 0xA6, CHR 0xE6, CHR 0x89, CHR 0x8B, CHR 0x3A, CHR 0x20,
      CHR 0xE6, CHR 0x8B, CHR 0x96, CHR 0xE6, CHR 0x8B, CHR 0xBD, CHR 0xE4, CHR 0xB8, CHR 0xAD]"

definition status_LeftIdle :: string where
  \<comment> \<open>U+5DE6 U+624B ": " U+5F85 U+547D " (" U+634F U+5408 U+4EE5 U+62D6 U+62FD ")":
      left hand: standby (pinch to drag)\<close>
  "status_LeftIdle =
     [CHR 0xE5, CHR 0xB7, CHR 0xA6, CHR 0xE6, CHR 0x89, CHR 0x8B, CHR 0x3A, CHR 0x20,
      CHR 0xE5, CHR 0xBE, CHR 0x85, CHR 0xE5, CHR 0x91, CHR 0xBD, CHR 0x20, CHR 0x28,
      CHR 0xE6, CHR 0x8D, CHR 0x8F, CHR 0xE5, CHR 0x90, CHR 0x88, CHR 0xE4, CHR 0xBB,
      CHR 0xA5, CHR 0xE6, CHR 0x8B, CHR 0x96, CHR 0xE6, CHR 0x8B, CHR 0xBD, CHR 0x29]"

definition status_RightRotateScale :: string where
  \<comment> \<open>U+53F3 U+624B ": " U+65CB U+8F6C "/" U+7F29 U+653E: right hand: rotate/scale\<close>
  "status_RightRotateScale =
     [CHR 0xE5, CHR 0x8F, CHR 0xB3, CHR 0xE6, CHR 0x89, CHR 0x8B, CHR 0x3A, CHR 0x20,
      CHR 0xE6, CHR 0x97, CHR 0x8B, CHR 0xE8, CHR 0xBD, CHR 0xAC, CHR 0x2F, CHR 0xE7,
      CHR 0xBC, CHR 0xA9, CHR 0xE6, CHR 0x94, CHR 0xBE]"

definition status_Waiting :: string where
  \<comment> \<open>U+7B49 U+5F85 U+4FE1 U+53F7 "...": waiting for a signal...\<close>
  "status_Waiting =
     [CHR 0xE7, CHR 0xAD, CHR 0x89, CHR 0xE5, CHR 0xBE, CHR 0x85, CHR 0xE4, CHR 0xBF,
      CHR 0xA1, CHR 0xE5, CHR 0x8F, CHR 0xB7, CHR 0x2E, CHR 0x2E, CHR 0x2E]"

definition status_Initial :: string where
  \<comment> \<open>U+7B49 U+5F85 U+8F93 U+5165 "...": waiting for input...\<close>
  "status_Initial =
     [CHR 0xE7, CHR 0xAD, CHR 0x89, CHR 0xE5, CHR 0xBE, CHR 0x85, CHR 0xE8, CHR 0xBE,
      CHR 0x93, CHR 0xE5, CHR 0x85, CHR 0xA5, CHR 0x2E, CHR 0x2E, CHR 0x2E]"

section \<open>Data model (\<^verbatim>\<open>types.ts\<close>)\<close>

text \<open>
  \<open>XY\<close> is the object type \<^verbatim>\<open>{ x: number; y: number }\<close> of \<^verbatim>\<open>rotation\<close> and
  \<^verbatim>\<open>position\<close>; \<open>XYZ\<close> adds \<^verbatim>\<open>z\<close> and is the interface \<^verbatim>\<open>HandLandmark\<close>, and
  also the vectors and Euler angles of the scene graph.
\<close>

record XY =
  x :: real
  y :: real

record XYZ = XY +
  z :: real

type_synonym HandLandmark = XYZ
type_synonym Vector3 = XYZ
type_synonym Euler = XYZ

record EarthControlState =
  rotation :: XY
  scale :: real
  position :: XY
  activeRegion :: string

text \<open>
  What the hand detector returns for one video frame: two parallel arrays, the landmarks
  of each hand and the handedness categories of each hand. Of a category the program reads
  \<^verbatim>\<open>categoryName\<close> only.
\<close>

record Category =
  categoryName :: string

record HandLandmarkerResult =
  landmarks :: "HandLandmark list list"
  handedness :: "Category list list"

section \<open>The region of a rotation (\<^verbatim>\<open>getRegionFromRotation\<close>)\<close>

definition getRegionFromRotation :: "real \<Rightarrow> string" where
  "getRegionFromRotation yRotation =
     (let normalized0 = js_rem yRotation (pi * 2);
          normalized = (if normalized0 < 0 then normalized0 + pi * 2 else normalized0);
          deg = (normalized * 180) / pi
      in if deg > 330 \<or> deg < 30 then region_AfricaEurope
         else if deg \<ge> 30 \<and> deg < 120 then region_AmericasEast
         else if deg \<ge> 120 \<and> deg < 210 then region_Pacific
         else if deg \<ge> 210 \<and> deg < 300 then region_AsiaAustralia
         else region_Atlantic)"

section \<open>The detection loop (\<^verbatim>\<open>renderLoop\<close> of \<^verbatim>\<open>App\<close>)\<close>

definition earthControl_init :: EarthControlState where
  \<comment> \<open>The initial value of the ref \<^verbatim>\<open>earthControl\<close>.\<close>
  "earthControl_init =
     \<lparr>rotation = \<lparr>x = 0, y = 0\<rparr>, scale = 1, position = \<lparr>x = -2.5, y = 0\<rparr>,
      activeRegion = ''ATLANTIC''\<rparr>"

definition pinchDist :: "HandLandmark \<Rightarrow> HandLandmark \<Rightarrow> real" where
  "pinchDist thumbTip indexTip =
     sqrt ((x thumbTip - x indexTip) ^ 2 + (y thumbTip - y indexTip) ^ 2)"

definition newScale :: "real \<Rightarrow> real" where
  "newScale d = max 0.5 (min 3.5 (0.5 + (d * 10)))"

text \<open>
  The body of the loop over the detected hands, for the hand with landmarks \<open>lms\<close>;
  \<open>hd_i\<close> is \<^verbatim>\<open>result.handedness[i]\<close>, \<open>c\<close> the control state and \<open>statusString\<close> the
  local of that name. Reading a property of \<^verbatim>\<open>undefined\<close> raises a TypeError, here the
  result \<open>None\<close>; every such read comes before the first write of the iteration, so
  nothing is written when it raises. The drawing calls do not touch the control state
  and are left out.
\<close>

definition handBody ::
  "real \<Rightarrow> real \<Rightarrow> HandLandmark list \<Rightarrow> Category list option \<Rightarrow>
   EarthControlState \<Rightarrow> string \<Rightarrow> (EarthControlState \<times> string) option" where
  "handBody vWidth vHeight lms hd_i c statusString =
     (case hd_i of
        None \<Rightarrow> None
      | Some cats \<Rightarrow>
     (case arr_at cats 0 of
        None \<Rightarrow> None
      | Some cat \<Rightarrow>
     (case arr_at lms 9 of
        None \<Rightarrow> None
      | Some palmCenter \<Rightarrow>
     (case arr_at lms 4 of
        None \<Rightarrow> None
      | Some thumbTip \<Rightarrow>
     (case arr_at lms 8 of
        None \<Rightarrow> None
      | Some indexTip \<Rightarrow>
          (let visualX = 1 - x palmCenter;
               visualY = y palmCenter;
               d = pinchDist thumbTip indexTip
           in if categoryName cat = ''Left'' then
                (if d < 0.05 then
                   (let worldX = (visualX - 0.5) * vWidth;
                        worldY = - (visualY - 0.5) * vHeight
                    in Some (c\<lparr>position := \<lparr>x = worldX, y = worldY\<rparr>\<rparr>,
                             status_LeftDragging))
                 else Some (c, status_LeftIdle))
              else if categoryName cat = ''Right'' then
                Some (c\<lparr>rotation := (rotation c)\<lparr>y := (visualX - 0.5) * 6,
                                                  x := (visualY - 0.5) * 4\<rparr>,
                       scale := newScale d\<rparr>,
                      status_RightRotateScale)
              else Some (c, statusString)))))))"

text \<open>
  The loop \<^verbatim>\<open>for (let i = 0; i < result.landmarks.length; i++)\<close>, from index \<open>i\<close> on
  the landmarks still to visit. The second component of the result is \<open>None\<close> when an
  iteration raised: the writes of the iterations before it stay in the control state,
  which is a shared mutable object.
\<close>

fun forHands ::
  "real \<Rightarrow> real \<Rightarrow> Category list list \<Rightarrow> nat \<Rightarrow> HandLandmark list list \<Rightarrow>
   EarthControlState \<Rightarrow> string \<Rightarrow> EarthControlState \<times> string option" where
  "forHands vWidth vHeight hs i [] c statusString = (c, Some statusString)"
| "forHands vWidth vHeight hs i (lms # rest) c statusString =
     (case handBody vWidth vHeight lms (arr_at hs i) c statusString of
        None \<Rightarrow> (c, None)
      | Some (c', statusString') \<Rightarrow>
          forHands vWidth vHeight hs (Suc i) rest c' statusString')"

text \<open>
  One video frame as the loop sees it: whether the video and canvas refs and the 2D
  context are there, the window's size, and the detector's result.
\<close>

record Frame =
  refsReady :: bool
  ctxReady :: bool
  innerWidth :: real
  innerHeight :: real
  result :: HandLandmarkerResult

text \<open>
  The state the loop writes: the ref \<^verbatim>\<open>earthControl\<close>, the React states
  \<^verbatim>\<open>handDetected\<close> and \<^verbatim>\<open>gestureStatus\<close>, and \<open>scheduled\<close>: whether the call ended
  by requesting the next animation frame. An early \<^verbatim>\<open>return\<close> and a raised error both
  end the call before \<^verbatim>\<open>requestAnimationFrame\<close>. The frame-rate estimate writes
  \<^verbatim>\<open>fps\<close> and \<^verbatim>\<open>lastTimeRef\<close> only and is left out.
\<close>

record AppState =
  earthControl :: EarthControlState
  handDetected :: bool
  gestureStatus :: string
  scheduled :: bool

definition App_init :: AppState where
  "App_init =
     \<lparr>earthControl = earthControl_init, handDetected = False,
      gestureStatus = status_Initial, scheduled = True\<rparr>"

definition renderLoop :: "Frame \<Rightarrow> AppState \<Rightarrow> AppState" where
  "renderLoop f st =
     (if \<not> refsReady f then st\<lparr>scheduled := False\<rparr>
      else if \<not> ctxReady f then st\<lparr>scheduled := False\<rparr>
      else
        (let vHeight = 4.14;
             vWidth = vHeight * (innerWidth f / innerHeight f)
         in if length (landmarks (result f)) > 0 then
              (case forHands vWidth vHeight (handedness (result f)) 0
                      (landmarks (result f)) (earthControl st) []
               of
                 (c, None) \<Rightarrow> st\<lparr>earthControl := c, scheduled := False\<rparr>
               | (c, Some statusString) \<Rightarrow>
                   st\<lparr>earthControl := c, handDetected := True,
                      gestureStatus := statusString, scheduled := True\<rparr>)
            else
              st\<lparr>handDetected := False, gestureStatus := status_Waiting,
                 scheduled := True\<rparr>))"

text \<open>
  The session: the loop runs on the frames as they come, as long as each call requests
  the next one.
\<close>

fun runFrames :: "Frame list \<Rightarrow> AppState \<Rightarrow> AppState" where
  "runFrames [] st = st"
| "runFrames (f # fs) st =
     (let st' = renderLoop f st in if scheduled st' then runFrames fs st' else st')"

section \<open>The render tick (\<^verbatim>\<open>useFrame\<close> of \<^verbatim>\<open>HolographicEarth\<close>)\<close>

definition lerp :: "real \<Rightarrow> real \<Rightarrow> real \<Rightarrow> real" where
  \<comment> \<open>Modelled from the spec: \<^verbatim>\<open>THREE.MathUtils.lerp\<close> is a function of the three.js
      library, which is not part of the repository; the spec gives the interpolation as
      \<^verbatim>\<open>smoothed += (target - smoothed) * alpha\<close>.\<close>
  "lerp smoothed target alpha = smoothed + (target - smoothed) * alpha"

definition Vector3_lerp :: "Vector3 \<Rightarrow> Vector3 \<Rightarrow> real \<Rightarrow> Vector3" where
  \<comment> \<open>Modelled from the spec: \<^verbatim>\<open>Vector3.lerp\<close> of three.js, the same interpolation on
      each of the three components.\<close>
  "Vector3_lerp this v alpha =
     \<lparr>x = lerp (x this) (x v) alpha, y = lerp (y this) (y v) alpha,
      z = lerp (z this) (z v) alpha\<rparr>"

text \<open>
  The part of the scene graph the tick writes: the position of the group, and the scale
  and rotation of the earth, the clouds and the rings; \<open>continent\<close> is the label handed
  to \<^verbatim>\<open>setContinent\<close>.
\<close>

record Scene =
  groupRef_position :: Vector3
  earthRef_scale :: Vector3
  earthRef_rotation :: Euler
  cloudsRef_scale :: Vector3
  cloudsRef_rotation :: Euler
  ringsRef_scale :: Vector3
  ringsRef_rotation :: Euler
  continent :: string

definition Scene_init :: Scene where
  \<comment> \<open>As the component mounts: the group at \<^verbatim>\<open>[-2.5, 0, 0]\<close>, the rings turned by
      \<^verbatim>\<open>Math.PI / 3\<close> about x, every other scale one and rotation zero.\<close>
  "Scene_init =
     \<lparr>groupRef_position = \<lparr>x = -2.5, y = 0, z = 0\<rparr>,
      earthRef_scale = \<lparr>x = 1, y = 1, z = 1\<rparr>,
      earthRef_rotation = \<lparr>x = 0, y = 0, z = 0\<rparr>,
      cloudsRef_scale = \<lparr>x = 1, y = 1, z = 1\<rparr>,
      cloudsRef_rotation = \<lparr>x = 0, y = 0, z = 0\<rparr>,
      ringsRef_scale = \<lparr>x = 1, y = 1, z = 1\<rparr>,
      ringsRef_rotation = \<lparr>x = pi / 3, y = 0, z = 0\<rparr>,
      continent = region_Initialising\<rparr>"

text \<open>
  One tick. \<open>refs\<close> says whether the four refs are set (the tick returns at once
  otherwise), \<open>elapsedTime\<close> is \<^verbatim>\<open>state.clock.getElapsedTime()\<close>, \<open>control\<close> is
  \<^verbatim>\<open>controlRef.current\<close>. The parameter \<^verbatim>\<open>delta\<close> of the callback is not used by the
  source.
\<close>

definition useFrame :: "bool \<Rightarrow> real \<Rightarrow> EarthControlState \<Rightarrow> Scene \<Rightarrow> Scene" where
  "useFrame refs elapsedTime control sc =
     (if \<not> refs then sc
      else
        (let targetScale = scale control;
             targetRotY = y (rotation control);
             targetRotX = x (rotation control);
             targetPos = position control;
             earthRot = (earthRef_rotation sc)
               \<lparr>y := lerp (y (earthRef_rotation sc)) targetRotY 0.1,
                x := lerp (x (earthRef_rotation sc)) targetRotX 0.1\<rparr>
         in sc\<lparr>groupRef_position :=
                 Vector3_lerp (groupRef_position sc)
                   \<lparr>x = x targetPos, y = y targetPos, z = 0\<rparr> 0.2,
               earthRef_scale :=
                 Vector3_lerp (earthRef_scale sc)
                   \<lparr>x = targetScale, y = targetScale, z = targetScale\<rparr> 0.1,
               cloudsRef_scale :=
                 Vector3_lerp (cloudsRef_scale sc)
                   \<lparr>x = targetScale * 1.02, y = targetScale * 1.02,
                    z = targetScale * 1.02\<rparr> 0.1,
               ringsRef_scale :=
                 Vector3_lerp (ringsRef_scale sc)
                   \<lparr>x = targetScale, y = targetScale, z = targetScale\<rparr> 0.1,
               earthRef_rotation := earthRot,
               cloudsRef_rotation := (cloudsRef_rotation sc)
                 \<lparr>y := y earthRot * 1.1 + elapsedTime * 0.05, x := x earthRot\<rparr>,
               ringsRef_rotation := (ringsRef_rotation sc)
                 \<lparr>y := y (ringsRef_rotation sc) + 0.005,
                  z := sin (elapsedTime * 0.2) * 0.1\<rparr>,
               continent := getRegionFromRotation (y earthRot)\<rparr>))"

section \<open>The scale with numbers that may be \<^verbatim>\<open>NaN\<close>\<close>

text \<open>
  The model above takes every coordinate to be a real number. A \<^verbatim>\<open>number\<close> of the
  program can also be \<^verbatim>\<open>NaN\<close>, which the arithmetic and \<^verbatim>\<open>Math.min\<close>,
  \<^verbatim>\<open>Math.max\<close>, \<^verbatim>\<open>Math.pow\<close> and \<^verbatim>\<open>Math.sqrt\<close> hand on. The definitions of this
  section follow the pinch distance and the new scale of the loop body once more, on
  numbers that are finite or \<^verbatim>\<open>NaN\<close>. The infinities are not modelled: on finite
  numbers the operations are the exact ones.
\<close>

datatype number = Finite real | NaN

definition js_sub :: "number \<Rightarrow> number \<Rightarrow> number" where
  "js_sub a b = (case (a, b) of (Finite u, Finite v) \<Rightarrow> Finite (u - v) | _ \<Rightarrow> NaN)"

definition js_add :: "number \<Rightarrow> number \<Rightarrow> number" where
  "js_add a b = (case (a, b) of (Finite u, Finite v) \<Rightarrow> Finite (u + v) | _ \<Rightarrow> NaN)"

definition js_mul :: "number \<Rightarrow> number \<Rightarrow> number" where
  "js_mul a b = (case (a, b) of (Finite u, Finite v) \<Rightarrow> Finite (u * v) | _ \<Rightarrow> NaN)"

definition Math_pow2 :: "number \<Rightarrow> number" where
  \<comment> \<open>\<^verbatim>\<open>Math.pow(a, 2)\<close>\<close>
  "Math_pow2 a = (case a of Finite u \<Rightarrow> Finite (u ^ 2) | NaN \<Rightarrow> NaN)"

definition Math_sqrt :: "number \<Rightarrow> number" where
  "Math_sqrt a = (case a of Finite u \<Rightarrow> if u < 0 then NaN else Finite (sqrt u) | NaN \<Rightarrow> NaN)"

definition Math_min :: "number \<Rightarrow> number \<Rightarrow> number" where
  \<comment> \<open>\<^verbatim>\<open>NaN\<close> as soon as one argument is.\<close>
  "Math_min a b = (case (a, b) of (Finite u, Finite v) \<Rightarrow> Finite (min u v) | _ \<Rightarrow> NaN)"

definition Math_max :: "number \<Rightarrow> number \<Rightarrow> number" where
  "Math_max a b = (case (a, b) of (Finite u, Finite v) \<Rightarrow> Finite (max u v) | _ \<Rightarrow> NaN)"

record NumLandmark =
  nx :: number
  ny :: number
  nz :: number

definition pinchDist_number :: "NumLandmark \<Rightarrow> NumLandmark \<Rightarrow> number" where
  "pinchDist_number thumbTip indexTip =
     Math_sqrt (js_add (Math_pow2 (js_sub (nx thumbTip) (nx indexTip)))
                       (Math_pow2 (js_sub (ny thumbTip) (ny indexTip))))"

definition newScale_number :: "number \<Rightarrow> number" where
  \<comment> \<open>The value the right-hand branch assigns to \<^verbatim>\<open>earthControl.current.scale\<close>.\<close>
  "newScale_number d =
     Math_max (Finite 0.5) (Math_min (Finite 3.5) (js_add (Finite 0.5) (js_mul d (Finite 10))))"

section \<open>Notions of the specification and of the statements\<close>

definition clamp_spec :: "real \<Rightarrow> real \<Rightarrow> real \<Rightarrow> real" where
  \<comment> \<open>\<^verbatim>\<open>clamp(v, lo, hi)\<close> of the specification.\<close>
  "clamp_spec v lo hi = (if v < lo then lo else if hi < v then hi else v)"

definition scale_in_range :: "EarthControlState \<Rightarrow> bool" where
  \<comment> \<open>The specification's invariant \<^verbatim>\<open>scale \<in> [0.5, 3.5]\<close>.\<close>
  "scale_in_range c = (0.5 \<le> scale c \<and> scale c \<le> 3.5)"

definition same_xy :: "HandLandmark \<Rightarrow> HandLandmark \<Rightarrow> bool" where
  \<comment> \<open>Two landmarks that differ in \<^verbatim>\<open>z\<close> at most.\<close>
  "same_xy a b = (x a = x b \<and> y a = y b)"



definition number_in_range :: "number \<Rightarrow> bool" where
  \<comment> \<open>The specification's invariant on a number that may be \<^verbatim>\<open>NaN\<close>: every comparison
      with \<^verbatim>\<open>NaN\<close> is false.\<close>
  "number_in_range n = (case n of Finite r \<Rightarrow> 0.5 \<le> r \<and> r \<le> 3.5 | NaN \<Rightarrow> False)"

definition hand_at ::
  "HandLandmarkerResult \<Rightarrow> nat \<Rightarrow> (string \<times> HandLandmark \<times> HandLandmark \<times> HandLandmark) option" where
  \<comment> \<open>What the loop reads of hand \<open>i\<close> of a result: its label, palm centre, thumb tip and
      index fingertip; \<open>None\<close> when one of them is missing.\<close>
  "hand_at r i =
     (case arr_at (landmarks r) i of None \<Rightarrow> None | Some lms \<Rightarrow>
     (case arr_at (handedness r) i of None \<Rightarrow> None | Some cats \<Rightarrow>
     (case arr_at cats 0 of None \<Rightarrow> None | Some cat \<Rightarrow>
     (case arr_at lms 9 of None \<Rightarrow> None | Some palmCenter \<Rightarrow>
     (case arr_at lms 4 of None \<Rightarrow> None | Some thumbTip \<Rightarrow>
     (case arr_at lms 8 of None \<Rightarrow> None | Some indexTip \<Rightarrow>
        Some (categoryName cat, palmCenter, thumbTip, indexTip)))))))"

definition drag_from :: "HandLandmarkerResult \<Rightarrow> real \<Rightarrow> real \<Rightarrow> nat \<Rightarrow> XY \<Rightarrow> bool" where
  \<comment> \<open>Hand \<open>i\<close> is a pinching left hand whose palm maps to the position \<open>pos\<close>.\<close>
  "drag_from r vWidth vHeight i pos =
     (case hand_at r i of
        None \<Rightarrow> False
      | Some (label, palmCenter, thumbTip, indexTip) \<Rightarrow>
          label = ''Left'' \<and> pinchDist thumbTip indexTip < 0.05 \<and>
          pos = \<lparr>x = ((1 - x palmCenter) - 0.5) * vWidth,
                 y = - (y palmCenter - 0.5) * vHeight\<rparr>)"

definition turn_from :: "HandLandmarkerResult \<Rightarrow> nat \<Rightarrow> XY \<Rightarrow> real \<Rightarrow> bool" where
  \<comment> \<open>Hand \<open>i\<close> is a right hand whose palm maps to the rotation \<open>rot\<close> and whose pinch
      distance maps to the scale \<open>sc\<close>.\<close>
  "turn_from r i rot sc =
     (case hand_at r i of
        None \<Rightarrow> False
      | Some (label, palmCenter, thumbTip, indexTip) \<Rightarrow>
          label = ''Right'' \<and>
          rot = \<lparr>x = (y palmCenter - 0.5) * 4, y = ((1 - x palmCenter) - 0.5) * 6\<rparr> \<and>
          sc = newScale (pinchDist thumbTip indexTip))"

definition dragged_to :: "Frame \<Rightarrow> XY \<Rightarrow> bool" where
  \<comment> \<open>Some hand of the frame is a pinching left hand that maps to \<open>pos\<close>.\<close>
  "dragged_to f pos =
     (\<exists>i < length (landmarks (result f)).
        drag_from (result f) (4.14 * (innerWidth f / innerHeight f)) 4.14 i pos)"

definition turned_to :: "Frame \<Rightarrow> XY \<Rightarrow> real \<Rightarrow> bool" where
  \<comment> \<open>Some hand of the frame is a right hand that maps to \<open>rot\<close> and \<open>sc\<close>.\<close>
  "turned_to f rot sc =
     (\<exists>i < length (landmarks (result f)). turn_from (result f) i rot sc)"

section \<open>Example inputs\<close>

definition lm :: "real \<Rightarrow> real \<Rightarrow> real \<Rightarrow> HandLandmark" where
  "lm a b c = \<lparr>x = a, y = b, z = c\<rparr>"

definition hand_example :: "HandLandmark list" where
  \<comment> \<open>Ten landmarks: the thumb tip (index 4) at \<open>(0.5, 0.5)\<close>, the index fingertip
      (index 8) at \<open>(0.75, 0.5)\<close>, the palm centre (index 9) at \<open>(1, 0.5)\<close>; the pinch
      distance is \<open>0.25\<close>.\<close>
  "hand_example =
     [lm 0 0 0, lm 0 0 0, lm 0 0 0, lm 0 0 0, lm 0.5 0.5 0,
      lm 0 0 0, lm 0 0 0, lm 0 0 0, lm 0.75 0.5 0, lm 1 0.5 0]"

definition hand_pinched :: "HandLandmark list" where
  \<comment> \<open>Ten landmarks: thumb tip and index fingertip \<open>0.02\<close> apart, the palm centre at
      \<open>(0.5, 0.5)\<close>.\<close>
  "hand_pinched =
     [lm 0 0 0, lm 0 0 0, lm 0 0 0, lm 0 0 0, lm 0.5 0.5 0,
      lm 0 0 0, lm 0 0 0, lm 0 0 0, lm 0.52 0.5 0, lm 0.5 0.5 0]"

definition Left :: Category where
  "Left = \<lparr>categoryName = ''Left''\<rparr>"

definition Right :: Category where
  "Right = \<lparr>categoryName = ''Right''\<rparr>"

definition frame_of :: "HandLandmark list list \<Rightarrow> Category list list \<Rightarrow> Frame" where
  \<comment> \<open>A frame of a 1280 by 720 window with the refs and the context in place.\<close>
  "frame_of lss hs =
     \<lparr>refsReady = True, ctxReady = True, innerWidth = 1280, innerHeight = 720,
      result = \<lparr>landmarks = lss, handedness = hs\<rparr>\<rparr>"

section \<open>Facts about the loop body\<close>

lemma pinchDist_nonneg: "0 \<le> pinchDist t i"
  by (simp add: pinchDist_def)

lemma newScale_clamp: "newScale d = clamp_spec (0.5 + d * 10) 0.5 3.5"
  by (simp add: newScale_def clamp_spec_def max_def min_def)

lemma newScale_mono: "d \<le> d' \<Longrightarrow> newScale d \<le> newScale d'"
  by (simp add: newScale_def max_def min_def)

lemma newScale_range: "0.5 \<le> newScale d \<and> newScale d \<le> 3.5"
  by (simp add: newScale_def max_def min_def)

lemma handBody_Right:
  assumes "arr_at cats 0 = Some cat" and "categoryName cat = ''Right''"
    and "arr_at lms 9 = Some palmCenter" and "arr_at lms 4 = Some thumbTip"
    and "arr_at lms 8 = Some indexTip"
  shows "handBody vWidth vHeight lms (Some cats) c s =
     Some (c\<lparr>rotation := (rotation c)\<lparr>y := ((1 - x palmCenter) - 0.5) * 6,
                                       x := (y palmCenter - 0.5) * 4\<rparr>,
             scale := newScale (pinchDist thumbTip indexTip)\<rparr>,
           status_RightRotateScale)"
  using assms by (simp add: handBody_def Let_def)

lemma handBody_Left:
  assumes "arr_at cats 0 = Some cat" and "categoryName cat = ''Left''"
    and "arr_at lms 9 = Some palmCenter" and "arr_at lms 4 = Some thumbTip"
    and "arr_at lms 8 = Some indexTip"
  shows "handBody vWidth vHeight lms (Some cats) c s =
     (if pinchDist thumbTip indexTip < 0.05
      then Some (c\<lparr>position := \<lparr>x = ((1 - x palmCenter) - 0.5) * vWidth,
                                 y = - (y palmCenter - 0.5) * vHeight\<rparr>\<rparr>,
                 status_LeftDragging)
      else Some (c, status_LeftIdle))"
  using assms by (simp add: handBody_def Let_def)

lemma hand_example_at:
  "arr_at hand_example 9 = Some (lm 1 0.5 0)"
  "arr_at hand_example 4 = Some (lm 0.5 0.5 0)"
  "arr_at hand_example 8 = Some (lm 0.75 0.5 0)"
  by (simp_all add: arr_at_def hand_example_def)

lemma pinchDist_example: "pinchDist (lm 0.5 0.5 0) (lm 0.75 0.5 0) = 0.25"
proof -
  have "pinchDist (lm 0.5 0.5 0) (lm 0.75 0.5 0) = sqrt ((1 / 4)\<^sup>2)"
    by (simp add: pinchDist_def lm_def power2_eq_square)
  also have "\<dots> = 1 / 4"
    by (simp only: real_sqrt_abs)
  finally show ?thesis by simp
qed

lemma first_Right: "arr_at [Right] 0 = Some Right" "categoryName Right = ''Right''"
  by (simp_all add: arr_at_def Right_def)

lemma first_Left: "arr_at [Left] 0 = Some Left" "categoryName Left = ''Left''"
  by (simp_all add: arr_at_def Left_def)

lemma hand_pinched_at:
  "arr_at hand_pinched 9 = Some (lm 0.5 0.5 0)"
  "arr_at hand_pinched 4 = Some (lm 0.5 0.5 0)"
  "arr_at hand_pinched 8 = Some (lm 0.52 0.5 0)"
  by (simp_all add: arr_at_def hand_pinched_def)

lemma pinchDist_pinched: "pinchDist (lm 0.5 0.5 0) (lm 0.52 0.5 0) = 0.02"
proof -
  have "pinchDist (lm 0.5 0.5 0) (lm 0.52 0.5 0) = sqrt ((1 / 50)\<^sup>2)"
    by (simp add: pinchDist_def lm_def power2_eq_square)
  also have "\<dots> = 1 / 50"
    by (simp only: real_sqrt_abs)
  finally show ?thesis by simp
qed

section \<open>Facts about a frame and a session\<close>

lemma renderLoop_no_hands:
  "landmarks (result f) = [] \<Longrightarrow> earthControl (renderLoop f st) = earthControl st"
  by (simp add: renderLoop_def Let_def)

lemma handBody_scale:
  assumes "handBody vWidth vHeight lms h c s = Some (c', s')" and "scale_in_range c"
  shows "scale_in_range c'"
  using assms newScale_range [of "pinchDist (lms ! 4) (lms ! 8)"]
  by (auto simp: handBody_def Let_def scale_in_range_def arr_at_def split: option.splits if_splits)

lemma forHands_scale:
  "scale_in_range c \<Longrightarrow> scale_in_range (fst (forHands vWidth vHeight hs i lss c s))"
proof (induction lss arbitrary: i c s)
  case Nil
  then show ?case by simp
next
  case (Cons lms lss)
  show ?case
  proof (cases "handBody vWidth vHeight lms (arr_at hs i) c s")
    case None
    then show ?thesis using Cons.prems by simp
  next
    case (Some r)
    obtain c' s' where r: "r = (c', s')" by (cases r)
    have "scale_in_range c'" using handBody_scale Some r Cons.prems by blast
    then show ?thesis using Cons.IH Some r by simp
  qed
qed

lemma renderLoop_scale:
  assumes "scale_in_range (earthControl st)"
  shows "scale_in_range (earthControl (renderLoop f st))"
proof -
  let ?r = "forHands (4.14 * (innerWidth f / innerHeight f)) 4.14 (handedness (result f)) 0
              (landmarks (result f)) (earthControl st) []"
  have "scale_in_range (fst ?r)" using assms by (rule forHands_scale)
  then show ?thesis using assms
    by (cases ?r) (auto simp: renderLoop_def Let_def split: option.splits)
qed

lemma runFrames_scale:
  "scale_in_range (earthControl st) \<Longrightarrow> scale_in_range (earthControl (runFrames fs st))"
  by (induction fs arbitrary: st) (auto simp: Let_def renderLoop_scale)

lemma hand_example_Right:
  "handBody vWidth vHeight hand_example (Some [Right]) earthControl_init s =
     Some (earthControl_init\<lparr>rotation := \<lparr>x = 0, y = - 3\<rparr>, scale := 3\<rparr>,
           status_RightRotateScale)"
proof -
  have n: "newScale (pinchDist (lm 0.5 0.5 0) (lm 0.75 0.5 0)) = 3"
    by (simp only: pinchDist_example) (simp add: newScale_def)
  have r: "(rotation earthControl_init)\<lparr>y := ((1 - x (lm 1 0.5 0)) - 0.5) * 6,
              x := (y (lm 1 0.5 0) - 0.5) * 4\<rparr> = \<lparr>x = 0, y = - 3\<rparr>"
    by (simp add: lm_def earthControl_init_def)
  show ?thesis
    using handBody_Right [OF first_Right hand_example_at, of vWidth vHeight earthControl_init s]
    by (simp only: n r)
qed

lemma arr_at_same_xy:
  assumes "list_all2 same_xy lms lms'"
  shows "(arr_at lms k = None \<and> arr_at lms' k = None) \<or>
         (\<exists>a b. arr_at lms k = Some a \<and> arr_at lms' k = Some b \<and> x a = x b \<and> y a = y b)"
proof (cases "k < length lms")
  case True
  then have "same_xy (lms ! k) (lms' ! k)"
    using assms by (simp add: list_all2_nthD)
  then show ?thesis
    using True assms by (simp add: arr_at_def same_xy_def list_all2_lengthD)
next
  case False
  then show ?thesis
    using assms by (simp add: arr_at_def list_all2_lengthD)
qed

lemma handBody_same_xy:
  assumes "list_all2 same_xy lms lms'"
  shows "handBody vWidth vHeight lms' h c s = handBody vWidth vHeight lms h c s"
  using arr_at_same_xy [OF assms, of 9] arr_at_same_xy [OF assms, of 4]
    arr_at_same_xy [OF assms, of 8]
  by (auto simp: handBody_def pinchDist_def Let_def split: option.splits)

lemma forHands_same_xy:
  assumes "list_all2 (list_all2 same_xy) lss lss'"
  shows "forHands vWidth vHeight hs i lss' c s = forHands vWidth vHeight hs i lss c s"
  using assms
proof (induction lss lss' arbitrary: i c s rule: list_all2_induct)
  case Nil
  then show ?case by simp
next
  case (Cons lms lss lms' lss')
  then show ?case
    by (simp add: handBody_same_xy split: option.splits)
qed

section \<open>Every write comes from a hand\<close>

lemma XY_update_eq: "(r::XY)\<lparr>y := b, x := a\<rparr> = \<lparr>x = a, y = b\<rparr>"
  by (cases r) simp

lemma handBody_cases:
  assumes "handBody vWidth vHeight lms h c s = Some (c', s')"
  shows "\<exists>cats cat p t d. h = Some cats \<and> arr_at cats 0 = Some cat \<and>
      arr_at lms 9 = Some p \<and> arr_at lms 4 = Some t \<and> arr_at lms 8 = Some d \<and>
      (if categoryName cat = ''Left'' then
         (if pinchDist t d < 0.05
          then c' = c\<lparr>position := \<lparr>x = ((1 - x p) - 0.5) * vWidth, y = - (y p - 0.5) * vHeight\<rparr>\<rparr>
          else c' = c)
       else if categoryName cat = ''Right'' then
         c' = c\<lparr>rotation := \<lparr>x = (y p - 0.5) * 4, y = ((1 - x p) - 0.5) * 6\<rparr>,
                scale := newScale (pinchDist t d)\<rparr>
       else c' = c)"
  using assms
  by (auto simp: handBody_def Let_def XY_update_eq split: option.splits if_splits)

lemma hand_at_eq:
  assumes "arr_at (landmarks r) i = Some lms" and "arr_at (handedness r) i = Some cats"
    and "arr_at cats 0 = Some cat" and "arr_at lms 9 = Some p" and "arr_at lms 4 = Some t"
    and "arr_at lms 8 = Some d"
  shows "hand_at r i = Some (categoryName cat, p, t, d)"
  using assms by (simp add: hand_at_def)

lemma handBody_attributed:
  assumes "handBody vWidth vHeight lms (arr_at (handedness r) i) c s = Some (c', s')"
    and "arr_at (landmarks r) i = Some lms"
  shows "(position c' = position c \<or> drag_from r vWidth vHeight i (position c')) \<and>
         (rotation c' = rotation c \<and> scale c' = scale c \<or>
          turn_from r i (rotation c') (scale c')) \<and>
         activeRegion c' = activeRegion c"
proof -
  obtain cats cat p t d where h: "arr_at (handedness r) i = Some cats" "arr_at cats 0 = Some cat"
      "arr_at lms 9 = Some p" "arr_at lms 4 = Some t" "arr_at lms 8 = Some d"
    and w: "(if categoryName cat = ''Left'' then
         (if pinchDist t d < 0.05
          then c' = c\<lparr>position := \<lparr>x = ((1 - x p) - 0.5) * vWidth, y = - (y p - 0.5) * vHeight\<rparr>\<rparr>
          else c' = c)
       else if categoryName cat = ''Right'' then
         c' = c\<lparr>rotation := \<lparr>x = (y p - 0.5) * 4, y = ((1 - x p) - 0.5) * 6\<rparr>,
                scale := newScale (pinchDist t d)\<rparr>
       else c' = c)"
    using handBody_cases [OF assms(1)] by blast
  have a: "hand_at r i = Some (categoryName cat, p, t, d)"
    using hand_at_eq [OF assms(2) h] .
  show ?thesis
    using w by (auto simp: drag_from_def turn_from_def a split: if_splits)
qed

lemma drop_ConsD:
  assumes "drop i xs = a # rest"
  shows "i < length xs \<and> xs ! i = a \<and> drop (Suc i) xs = rest"
proof -
  have l: "i < length xs" using assms by (cases "i < length xs") simp_all
  then have "xs ! i # drop (Suc i) xs = a # rest"
    using assms by (simp add: Cons_nth_drop_Suc)
  then show ?thesis using l by simp
qed

lemma forHands_attributed:
  assumes "drop i (landmarks r) = lss"
  shows "(position (fst (forHands vWidth vHeight (handedness r) i lss c s)) = position c \<or>
          (\<exists>j < length (landmarks r).
             drag_from r vWidth vHeight j
               (position (fst (forHands vWidth vHeight (handedness r) i lss c s))))) \<and>
         (rotation (fst (forHands vWidth vHeight (handedness r) i lss c s)) = rotation c \<and>
          scale (fst (forHands vWidth vHeight (handedness r) i lss c s)) = scale c \<or>
          (\<exists>j < length (landmarks r).
             turn_from r j (rotation (fst (forHands vWidth vHeight (handedness r) i lss c s)))
               (scale (fst (forHands vWidth vHeight (handedness r) i lss c s))))) \<and>
         activeRegion (fst (forHands vWidth vHeight (handedness r) i lss c s)) = activeRegion c"
  using assms
proof (induction lss arbitrary: i c s)
  case Nil
  then show ?case by simp
next
  case (Cons lms lss)
  have d: "i < length (landmarks r)" "landmarks r ! i = lms" "drop (Suc i) (landmarks r) = lss"
    using drop_ConsD [OF Cons.prems] by simp_all
  then have at: "arr_at (landmarks r) i = Some lms"
    by (simp add: arr_at_def)
  show ?case
  proof (cases "handBody vWidth vHeight lms (arr_at (handedness r) i) c s")
    case None
    then show ?thesis by simp
  next
    case (Some cs)
    obtain c' s' where cs: "cs = (c', s')" by (cases cs)
    note one = handBody_attributed [OF Some [unfolded cs] at]
    note rest = Cons.IH [OF d(3), of c' s']
    have e: "forHands vWidth vHeight (handedness r) i (lms # lss) c s =
             forHands vWidth vHeight (handedness r) (Suc i) lss c' s'"
      using Some cs by simp
    show ?thesis
      unfolding e using one rest d(1) by metis
  qed
qed

lemma renderLoop_attributed:
  "(position (earthControl (renderLoop f st)) = position (earthControl st) \<or>
    dragged_to f (position (earthControl (renderLoop f st)))) \<and>
   (rotation (earthControl (renderLoop f st)) = rotation (earthControl st) \<and>
    scale (earthControl (renderLoop f st)) = scale (earthControl st) \<or>
    turned_to f (rotation (earthControl (renderLoop f st)))
      (scale (earthControl (renderLoop f st)))) \<and>
   activeRegion (earthControl (renderLoop f st)) = activeRegion (earthControl st)"
proof -
  let ?r = "forHands (4.14 * (innerWidth f / innerHeight f)) 4.14 (handedness (result f)) 0
              (landmarks (result f)) (earthControl st) []"
  have a: "drop 0 (landmarks (result f)) = landmarks (result f)" by simp
  note h = forHands_attributed [OF a, of "4.14 * (innerWidth f / innerHeight f)" "4.14"
      "earthControl st" "[]"]
  have "earthControl (renderLoop f st) = earthControl st \<or>
        earthControl (renderLoop f st) = fst ?r"
    by (cases ?r) (auto simp: renderLoop_def Let_def split: option.splits)
  then show ?thesis
  proof
    assume "earthControl (renderLoop f st) = earthControl st"
    then show ?thesis by simp
  next
    assume e: "earthControl (renderLoop f st) = fst ?r"
    show ?thesis
      unfolding e dragged_to_def turned_to_def using h by blast
  qed
qed

lemma runFrames_attributed:
  "(position (earthControl (runFrames fs st)) = position (earthControl st) \<or>
    (\<exists>f \<in> set fs. dragged_to f (position (earthControl (runFrames fs st))))) \<and>
   (rotation (earthControl (runFrames fs st)) = rotation (earthControl st) \<and>
    scale (earthControl (runFrames fs st)) = scale (earthControl st) \<or>
    (\<exists>f \<in> set fs. turned_to f (rotation (earthControl (runFrames fs st)))
      (scale (earthControl (runFrames fs st))))) \<and>
   activeRegion (earthControl (runFrames fs st)) = activeRegion (earthControl st)"
proof (induction fs arbitrary: st)
  case Nil
  then show ?case by simp
next
  case (Cons f fs)
  note one = renderLoop_attributed [of f st]
  show ?case
  proof (cases "scheduled (renderLoop f st)")
    case False
    then have e: "runFrames (f # fs) st = renderLoop f st" by (simp add: Let_def)
    show ?thesis
      unfolding e using one by auto
  next
    case True
    then have e: "runFrames (f # fs) st = runFrames fs (renderLoop f st)" by (simp add: Let_def)
    note rest = Cons.IH [of "renderLoop f st"]
    have s: "set (f # fs) = insert f (set fs)" by simp
    show ?thesis
      unfolding e s using one rest by (metis insertCI)
  qed
qed

lemma status_Left_distinct: "status_LeftIdle \<noteq> status_LeftDragging"
  by (simp add: status_LeftIdle_def status_LeftDragging_def)

section \<open>Facts about numbers that may be \<^verbatim>\<open>NaN\<close>\<close>

lemma pinchDist_number_Finite:
  "pinchDist_number \<lparr>nx = Finite tx, ny = Finite ty, nz = tz\<rparr>
      \<lparr>nx = Finite ix, ny = Finite iy, nz = iz\<rparr> =
   Finite (pinchDist \<lparr>x = tx, y = ty, z = a\<rparr> \<lparr>x = ix, y = iy, z = b\<rparr>)"
  by (simp add: pinchDist_number_def pinchDist_def Math_sqrt_def js_add_def js_sub_def
      Math_pow2_def not_less)

lemma newScale_number_Finite: "newScale_number (Finite d) = Finite (newScale d)"
  by (simp add: newScale_number_def newScale_def Math_max_def Math_min_def js_add_def js_mul_def)

section \<open>Facts about the region and the render tick\<close>















lemma lerp_fixed: "alpha \<noteq> 0 \<Longrightarrow> lerp a b alpha = a \<longleftrightarrow> a = b"
  by (auto simp: lerp_def)

lemma Vector3_lerp_fixed: "alpha \<noteq> 0 \<Longrightarrow> Vector3_lerp v w alpha = v \<longleftrightarrow> v = w"
  by (cases v; cases w) (auto simp: Vector3_lerp_def lerp_def)

section \<open>The claims\<close>

text \<open>
  C1. For a right hand whose thumb tip and index fingertip are \<open>d\<close> apart (\<open>d\<close> is
  never negative), the loop body writes the scale \<open>clamp (0.5 + d * 10) 0.5 3.5\<close>,
  which lies between \<open>0.5\<close> and \<open>3.5\<close>; the written scale is that clamp for every
  \<open>d\<close>, and it does not decrease when \<open>d\<close> grows.
\<close>

theorem scale_written_is_clamp:
  assumes "arr_at cats 0 = Some cat" and "categoryName cat = ''Right''"
    and "arr_at lms 9 = Some palmCenter" and "arr_at lms 4 = Some thumbTip"
    and "arr_at lms 8 = Some indexTip" and "d = pinchDist thumbTip indexTip"
  shows "0 \<le> d \<and>
    (\<exists>c' s'. handBody vWidth vHeight lms (Some cats) c s = Some (c', s') \<and>
       scale c' = newScale d \<and>
       scale c' = clamp_spec (0.5 + d * 10) 0.5 3.5 \<and>
       0.5 \<le> scale c' \<and> scale c' \<le> 3.5) \<and>
    (\<forall>e. newScale e = clamp_spec (0.5 + e * 10) 0.5 3.5) \<and>
    (\<forall>d1 d2. d1 \<le> d2 \<longrightarrow> newScale d1 \<le> newScale d2)"
proof -
  have "handBody vWidth vHeight lms (Some cats) c s =
     Some (c\<lparr>rotation := (rotation c)\<lparr>y := ((1 - x palmCenter) - 0.5) * 6,
                                       x := (y palmCenter - 0.5) * 4\<rparr>,
             scale := newScale d\<rparr>,
           status_RightRotateScale)"
    using assms handBody_Right by simp
  then have "\<exists>c' s'. handBody vWidth vHeight lms (Some cats) c s = Some (c', s') \<and>
       scale c' = newScale d"
    by simp
  moreover have "0 \<le> d"
    using assms(6) pinchDist_nonneg by simp
  ultimately show ?thesis
    using newScale_clamp newScale_range newScale_mono by metis
qed

theorem scale_written_is_clamp_witness:
  "\<exists>c' s'. handBody 1 1 hand_example (Some [Right]) earthControl_init [] = Some (c', s') \<and>
     scale c' = 3"
proof -
  have n: "newScale 0.25 = 3"
    by (simp add: newScale_def)
  note t = scale_written_is_clamp [OF first_Right hand_example_at
      pinchDist_example [symmetric], of 1 1 earthControl_init "[]"]
  from t n show ?thesis by auto
qed

text \<open>
  C2. For a right hand whose palm centre \<open>(x, y)\<close> lies in the unit square, the loop
  body writes \<open>rotation.y = (visualX - 0.5) * 6\<close> with \<open>visualX = 1 - x\<close> and
  \<open>rotation.x = (visualY - 0.5) * 4\<close> with \<open>visualY = y\<close>; so \<open>rotation.y\<close> lies in
  \<open>[-3, 3]\<close> and \<open>rotation.x\<close> in \<open>[-2, 2]\<close>.
\<close>

theorem rotation_written_is_linear:
  assumes "arr_at cats 0 = Some cat" and "categoryName cat = ''Right''"
    and "arr_at lms 9 = Some palmCenter" and "arr_at lms 4 = Some thumbTip"
    and "arr_at lms 8 = Some indexTip"
    and "0 \<le> x palmCenter" and "x palmCenter \<le> 1"
    and "0 \<le> y palmCenter" and "y palmCenter \<le> 1"
  shows "\<exists>c' s'. handBody vWidth vHeight lms (Some cats) c s = Some (c', s') \<and>
       y (rotation c') = ((1 - x palmCenter) - 0.5) * 6 \<and>
       x (rotation c') = (y palmCenter - 0.5) * 4 \<and>
       - 3 \<le> y (rotation c') \<and> y (rotation c') \<le> 3 \<and>
       - 2 \<le> x (rotation c') \<and> x (rotation c') \<le> 2"
  using assms(6-9) by (simp add: handBody_Right [OF assms(1-5)])

theorem rotation_written_is_linear_witness:
  "\<exists>c' s'. handBody 1 1 hand_example (Some [Right]) earthControl_init [] = Some (c', s') \<and>
     y (rotation c') = - 3 \<and> x (rotation c') = 0"
proof -
  have b: "0 \<le> x (lm 1 0.5 0)" "x (lm 1 0.5 0) \<le> 1" "0 \<le> y (lm 1 0.5 0)" "y (lm 1 0.5 0) \<le> 1"
    by (simp_all add: lm_def)
  note t = rotation_written_is_linear [OF first_Right hand_example_at b, of 1 1 earthControl_init "[]"]
  from t show ?thesis by (auto simp: lm_def)
qed

text \<open>
  C3. For a left hand, the loop body changes the position only when the hand is
  pinching (thumb tip and index fingertip less than \<open>0.05\<close> apart), and then to the
  mapped palm position; a left hand that is not pinching leaves the control state, and so
  the position, as it was.
\<close>

theorem left_hand_moves_only_when_pinching:
  assumes "arr_at cats 0 = Some cat" and "categoryName cat = ''Left''"
    and "arr_at lms 9 = Some palmCenter" and "arr_at lms 4 = Some thumbTip"
    and "arr_at lms 8 = Some indexTip" and "d = pinchDist thumbTip indexTip"
  shows "\<exists>c' s'. handBody vWidth vHeight lms (Some cats) c s = Some (c', s') \<and>
       (\<not> d < 0.05 \<longrightarrow> c' = c \<and> position c' = position c) \<and>
       (position c' \<noteq> position c \<longrightarrow> d < 0.05) \<and>
       (d < 0.05 \<longrightarrow>
          position c' = \<lparr>x = ((1 - x palmCenter) - 0.5) * vWidth,
                          y = - (y palmCenter - 0.5) * vHeight\<rparr>)"
  using assms(6) by (simp add: handBody_Left [OF assms(1-5)])

theorem left_hand_moves_only_when_pinching_witness:
  "(\<exists>s'. handBody 1 1 hand_example (Some [Left]) earthControl_init [] =
      Some (earthControl_init, s')) \<and>
   (\<exists>c' s'. handBody 1 1 hand_pinched (Some [Left]) earthControl_init [] = Some (c', s') \<and>
      position c' = \<lparr>x = 0, y = 0\<rparr>)"
proof -
  note t = left_hand_moves_only_when_pinching [OF first_Left hand_example_at
      pinchDist_example [symmetric], of 1 1 earthControl_init "[]"]
  note u = left_hand_moves_only_when_pinching [OF first_Left hand_pinched_at
      pinchDist_pinched [symmetric], of 1 1 earthControl_init "[]"]
  have "\<exists>s'. handBody 1 1 hand_example (Some [Left]) earthControl_init [] =
      Some (earthControl_init, s')"
    using t by auto
  moreover have "\<exists>c' s'. handBody 1 1 hand_pinched (Some [Left]) earthControl_init [] = Some (c', s') \<and>
      position c' = \<lparr>x = 0, y = 0\<rparr>"
    using u by (auto simp: lm_def)
  ultimately show ?thesis by blast
qed

text \<open>
  C4. A frame in which no hand is detected leaves the control state as it was, in every
  field; so does any number of such frames in a row.
\<close>

theorem no_hands_no_change:
  assumes "\<forall>f \<in> set fs. landmarks (result f) = []"
  shows "earthControl (runFrames fs st) = earthControl st"
  using assms
proof (induction fs arbitrary: st)
  case Nil
  then show ?case by simp
next
  case (Cons f fs)
  have "earthControl (renderLoop f st) = earthControl st"
    using Cons.prems by (simp add: renderLoop_no_hands)
  moreover have "earthControl (runFrames fs (renderLoop f st)) = earthControl (renderLoop f st)"
    using Cons by simp
  ultimately show ?case by (simp add: Let_def)
qed

theorem no_hands_no_change_witness:
  "earthControl (runFrames [frame_of [] [], frame_of [] [], frame_of [] []] App_init) = earthControl_init"
  using no_hands_no_change [of "[frame_of [] [], frame_of [] [], frame_of [] []]" App_init]
  by (simp add: frame_of_def App_init_def)

text \<open>
  C5. The claim has no write of the scale leave \<open>[0.5, 3.5]\<close>, whatever the
  detector reports. As amended: the scale lies in \<open>[0.5, 3.5]\<close> when the session
  starts; as long as the \<open>x\<close> and \<open>y\<close> of the landmarks are finite numbers (not
  \<^verbatim>\<open>NaN\<close>), every frame keeps it there, so it lies there after any number of frames;
  and on finite \<open>x\<close> and \<open>y\<close> the computation on numbers that may be \<^verbatim>\<open>NaN\<close> gives
  the scale of the real-valued model, a number in \<open>[0.5, 3.5]\<close>.
\<close>

theorem scale_stays_in_range:
  "scale_in_range earthControl_init \<and>
   (\<forall>f st. scale_in_range (earthControl st) \<longrightarrow> scale_in_range (earthControl (renderLoop f st))) \<and>
   (\<forall>fs. scale_in_range (earthControl (runFrames fs App_init))) \<and>
   (\<forall>tx ty tz ix iy iz.
      newScale_number (pinchDist_number \<lparr>nx = Finite tx, ny = Finite ty, nz = tz\<rparr>
                                        \<lparr>nx = Finite ix, ny = Finite iy, nz = iz\<rparr>) =
        Finite (newScale (pinchDist \<lparr>x = tx, y = ty, z = 0\<rparr> \<lparr>x = ix, y = iy, z = 0\<rparr>)) \<and>
      number_in_range
        (newScale_number (pinchDist_number \<lparr>nx = Finite tx, ny = Finite ty, nz = tz\<rparr>
                                           \<lparr>nx = Finite ix, ny = Finite iy, nz = iz\<rparr>)))"
proof -
  have i: "scale_in_range earthControl_init"
    by (simp add: scale_in_range_def earthControl_init_def)
  then have a: "scale_in_range (earthControl App_init)"
    by (simp add: App_init_def)
  have n: "newScale_number (pinchDist_number \<lparr>nx = Finite tx, ny = Finite ty, nz = tz\<rparr>
                                        \<lparr>nx = Finite ix, ny = Finite iy, nz = iz\<rparr>) =
        Finite (newScale (pinchDist \<lparr>x = tx, y = ty, z = 0\<rparr> \<lparr>x = ix, y = iy, z = 0\<rparr>))"
    for tx ty tz ix iy iz
    by (simp only: pinchDist_number_Finite [of _ _ _ _ _ _ 0 0] newScale_number_Finite)
  have r: "number_in_range (Finite (newScale d))" for d
    using newScale_range [of d] by (simp add: number_in_range_def)
  show ?thesis
    using i a renderLoop_scale runFrames_scale n r by presburger
qed

theorem scale_stays_in_range_witness:
  "scale_in_range (earthControl App_init) \<and>
   scale_in_range (earthControl (renderLoop (frame_of [hand_example] [[Right]]) App_init)) \<and>
   number_in_range
     (newScale_number (pinchDist_number \<lparr>nx = Finite 0.5, ny = Finite 0.5, nz = NaN\<rparr>
                                        \<lparr>nx = Finite 0.75, ny = Finite 0.5, nz = NaN\<rparr>))"
proof -
  have "scale_in_range (earthControl App_init)"
    using scale_stays_in_range by (simp add: App_init_def)
  then show ?thesis using scale_stays_in_range by blast
qed

text \<open>
  The claim as stated fails: with a thumb tip whose \<open>x\<close> is \<^verbatim>\<open>NaN\<close> the pinch distance
  is \<^verbatim>\<open>NaN\<close>, \<^verbatim>\<open>Math.min\<close> and \<^verbatim>\<open>Math.max\<close> hand it on, and the scale written
  is \<^verbatim>\<open>NaN\<close>, which is not in \<open>[0.5, 3.5]\<close>.
\<close>

theorem scale_NaN_counterexample:
  "newScale_number (pinchDist_number \<lparr>nx = NaN, ny = Finite 0.5, nz = Finite 0\<rparr>
                                     \<lparr>nx = Finite 0.75, ny = Finite 0.5, nz = Finite 0\<rparr>) = NaN \<and>
   \<not> number_in_range
     (newScale_number (pinchDist_number \<lparr>nx = NaN, ny = Finite 0.5, nz = Finite 0\<rparr>
                                        \<lparr>nx = Finite 0.75, ny = Finite 0.5, nz = Finite 0\<rparr>))"
  by (simp add: pinchDist_number_def newScale_number_def Math_sqrt_def js_add_def js_sub_def
      js_mul_def Math_pow2_def Math_max_def Math_min_def number_in_range_def)




text \<open>
  C7. The claim has the render tick leave the smoothed state unchanged when the elapsed
  time is zero; the tick interpolates with fixed factors whatever the elapsed time, so at
  elapsed time zero and target scale 2 the earth's scale goes from 1 to 1.1. As amended:
  whatever the elapsed time, a tick moves the position of the group by the factor
  \<open>0.2\<close> and the scale and the \<open>x\<close> and \<open>y\<close> rotation of the earth by the factor
  \<open>0.1\<close> of their distance to the target (\<open>smoothed + (target - smoothed) * factor\<close>);
  so these do not depend on the elapsed time, and a tick leaves each of them unchanged
  exactly when it already equals its target; a tick with the refs unset changes nothing;
  and the interpolation with \<open>alpha = 0\<close> returns the smoothed value unchanged.
\<close>

theorem smoothing_step_fixed_alpha:
  "groupRef_position (useFrame True elapsedTime control sc) =
     \<lparr>x = x (groupRef_position sc) + (x (position control) - x (groupRef_position sc)) * 0.2,
      y = y (groupRef_position sc) + (y (position control) - y (groupRef_position sc)) * 0.2,
      z = z (groupRef_position sc) + (0 - z (groupRef_position sc)) * 0.2\<rparr> \<and>
   earthRef_scale (useFrame True elapsedTime control sc) =
     \<lparr>x = x (earthRef_scale sc) + (scale control - x (earthRef_scale sc)) * 0.1,
      y = y (earthRef_scale sc) + (scale control - y (earthRef_scale sc)) * 0.1,
      z = z (earthRef_scale sc) + (scale control - z (earthRef_scale sc)) * 0.1\<rparr> \<and>
   earthRef_rotation (useFrame True elapsedTime control sc) =
     \<lparr>x = x (earthRef_rotation sc) + (x (rotation control) - x (earthRef_rotation sc)) * 0.1,
      y = y (earthRef_rotation sc) + (y (rotation control) - y (earthRef_rotation sc)) * 0.1,
      z = z (earthRef_rotation sc)\<rparr> \<and>
   groupRef_position (useFrame True elapsedTime control sc) =
     groupRef_position (useFrame True 0 control sc) \<and>
   earthRef_scale (useFrame True elapsedTime control sc) =
     earthRef_scale (useFrame True 0 control sc) \<and>
   earthRef_rotation (useFrame True elapsedTime control sc) =
     earthRef_rotation (useFrame True 0 control sc) \<and>
   (groupRef_position (useFrame True elapsedTime control sc) = groupRef_position sc \<longleftrightarrow>
      groupRef_position sc = \<lparr>x = x (position control), y = y (position control), z = 0\<rparr>) \<and>
   (earthRef_scale (useFrame True elapsedTime control sc) = earthRef_scale sc \<longleftrightarrow>
      earthRef_scale sc = \<lparr>x = scale control, y = scale control, z = scale control\<rparr>) \<and>
   (earthRef_rotation (useFrame True elapsedTime control sc) = earthRef_rotation sc \<longleftrightarrow>
      y (earthRef_rotation sc) = y (rotation control) \<and>
      x (earthRef_rotation sc) = x (rotation control)) \<and>
   useFrame False elapsedTime control sc = sc \<and>
   lerp a b 0 = a \<and> Vector3_lerp v w 0 = v"
proof -
  have r: "(earthRef_rotation sc)\<lparr>y := lerp (y (earthRef_rotation sc)) (y (rotation control)) 0.1,
             x := lerp (x (earthRef_rotation sc)) (x (rotation control)) 0.1\<rparr> = earthRef_rotation sc \<longleftrightarrow>
      y (earthRef_rotation sc) = y (rotation control) \<and>
      x (earthRef_rotation sc) = x (rotation control)"
    by (cases "earthRef_rotation sc") (auto simp: lerp_def)
  have e: "(earthRef_rotation sc)\<lparr>y := lerp (y (earthRef_rotation sc)) (y (rotation control)) 0.1,
             x := lerp (x (earthRef_rotation sc)) (x (rotation control)) 0.1\<rparr> =
     \<lparr>x = x (earthRef_rotation sc) + (x (rotation control) - x (earthRef_rotation sc)) * 0.1,
      y = y (earthRef_rotation sc) + (y (rotation control) - y (earthRef_rotation sc)) * 0.1,
      z = z (earthRef_rotation sc)\<rparr>"
    by (cases "earthRef_rotation sc") (simp add: lerp_def)
  have v: "Vector3_lerp v w 0 = v"
    by (cases v) (simp add: Vector3_lerp_def lerp_def)
  have g: "groupRef_position (useFrame True elapsedTime control sc) =
     \<lparr>x = x (groupRef_position sc) + (x (position control) - x (groupRef_position sc)) * 0.2,
      y = y (groupRef_position sc) + (y (position control) - y (groupRef_position sc)) * 0.2,
      z = z (groupRef_position sc) + (0 - z (groupRef_position sc)) * 0.2\<rparr>"
    by (simp add: useFrame_def Let_def Vector3_lerp_def lerp_def)
  have s: "earthRef_scale (useFrame True elapsedTime control sc) =
     \<lparr>x = x (earthRef_scale sc) + (scale control - x (earthRef_scale sc)) * 0.1,
      y = y (earthRef_scale sc) + (scale control - y (earthRef_scale sc)) * 0.1,
      z = z (earthRef_scale sc) + (scale control - z (earthRef_scale sc)) * 0.1\<rparr>"
    by (simp add: useFrame_def Let_def Vector3_lerp_def lerp_def)
  have o: "earthRef_rotation (useFrame True elapsedTime control sc) =
     \<lparr>x = x (earthRef_rotation sc) + (x (rotation control) - x (earthRef_rotation sc)) * 0.1,
      y = y (earthRef_rotation sc) + (y (rotation control) - y (earthRef_rotation sc)) * 0.1,
      z = z (earthRef_rotation sc)\<rparr>"
    using e by (simp add: useFrame_def Let_def)
  have rest: "groupRef_position (useFrame True elapsedTime control sc) =
     groupRef_position (useFrame True 0 control sc) \<and>
   earthRef_scale (useFrame True elapsedTime control sc) =
     earthRef_scale (useFrame True 0 control sc) \<and>
   earthRef_rotation (useFrame True elapsedTime control sc) =
     earthRef_rotation (useFrame True 0 control sc) \<and>
   (groupRef_position (useFrame True elapsedTime control sc) = groupRef_position sc \<longleftrightarrow>
      groupRef_position sc = \<lparr>x = x (position control), y = y (position control), z = 0\<rparr>) \<and>
   (earthRef_scale (useFrame True elapsedTime control sc) = earthRef_scale sc \<longleftrightarrow>
      earthRef_scale sc = \<lparr>x = scale control, y = scale control, z = scale control\<rparr>) \<and>
   (earthRef_rotation (useFrame True elapsedTime control sc) = earthRef_rotation sc \<longleftrightarrow>
      y (earthRef_rotation sc) = y (rotation control) \<and>
      x (earthRef_rotation sc) = x (rotation control)) \<and>
   useFrame False elapsedTime control sc = sc \<and>
   lerp a b 0 = a \<and> Vector3_lerp v w 0 = v"
    using r v by (simp add: useFrame_def Let_def Vector3_lerp_fixed) (simp add: lerp_def)
  from g s o rest show ?thesis by blast
qed

theorem smoothing_step_fixed_alpha_witness:
  "earthRef_scale (useFrame True 5 (earthControl_init\<lparr>scale := 2\<rparr>) Scene_init) =
     \<lparr>x = 1.1, y = 1.1, z = 1.1\<rparr> \<and>
   groupRef_position (useFrame True 5 (earthControl_init\<lparr>position := \<lparr>x = 0, y = 0\<rparr>\<rparr>) Scene_init) =
     \<lparr>x = - 2, y = 0, z = 0\<rparr>"
  using smoothing_step_fixed_alpha [of 5 "earthControl_init\<lparr>scale := 2\<rparr>" Scene_init]
    smoothing_step_fixed_alpha [of 5 "earthControl_init\<lparr>position := \<lparr>x = 0, y = 0\<rparr>\<rparr>" Scene_init]
  by (simp add: Scene_init_def)

text \<open>
  The claim as stated fails: a tick at elapsed time zero moves the earth's scale from 1
  to 1.1 when the target scale is 2.
\<close>

theorem smoothing_step_counterexample:
  "earthRef_scale (useFrame True 0 (earthControl_init\<lparr>scale := 2\<rparr>) Scene_init) =
     \<lparr>x = 1.1, y = 1.1, z = 1.1\<rparr> \<and>
   earthRef_scale (useFrame True 0 (earthControl_init\<lparr>scale := 2\<rparr>) Scene_init) \<noteq>
     earthRef_scale Scene_init"
  by (simp add: useFrame_def Let_def Scene_init_def Vector3_lerp_def lerp_def)

text \<open>
  C8. The scenario of a right hand with palm centre \<open>(1.0, 0.5)\<close> and pinch distance
  \<open>0.25\<close>. The claim has \<open>rotation.y = 3\<close>; the loop mirrors the palm first
  (\<open>visualX = 1 - 1.0 = 0\<close>), so it writes \<open>rotation.y = -3\<close>. As amended: the loop
  body writes \<open>rotation.y = -3\<close>, \<open>rotation.x = 0\<close> and \<open>scale = 3\<close>.
\<close>

theorem scenario_right_hand:
  assumes "arr_at cats 0 = Some cat" and "categoryName cat = ''Right''"
    and "arr_at lms 9 = Some palmCenter" and "arr_at lms 4 = Some thumbTip"
    and "arr_at lms 8 = Some indexTip"
    and "x palmCenter = 1" and "y palmCenter = 0.5"
    and "pinchDist thumbTip indexTip = 0.25"
  shows "\<exists>c' s'. handBody vWidth vHeight lms (Some cats) c s = Some (c', s') \<and>
       y (rotation c') = - 3 \<and> x (rotation c') = 0 \<and> scale c' = 3"
  using assms(6-8) by (simp add: handBody_Right [OF assms(1-5)] newScale_def)

theorem scenario_right_hand_witness:
  "\<exists>c' s'. handBody 1 1 hand_example (Some [Right]) earthControl_init [] = Some (c', s') \<and>
     y (rotation c') = - 3 \<and> x (rotation c') = 0 \<and> scale c' = 3"
proof -
  have b: "x (lm 1 0.5 0) = 1" "y (lm 1 0.5 0) = 0.5"
    by (simp_all add: lm_def)
  show ?thesis
    by (rule scenario_right_hand [OF first_Right hand_example_at b pinchDist_example])
qed

text \<open>
  The claim as stated fails: on the example hand, whose palm centre is \<open>(1, 0.5)\<close> and
  whose pinch distance is \<open>0.25\<close>, the loop body writes \<open>rotation.y = -3\<close>.
\<close>

theorem scenario_right_hand_counterexample:
  "arr_at hand_example 9 = Some (lm 1 0.5 0) \<and>
   pinchDist (lm 0.5 0.5 0) (lm 0.75 0.5 0) = 0.25 \<and>
   handBody 1 1 hand_example (Some [Right]) earthControl_init [] =
     Some (earthControl_init\<lparr>rotation := \<lparr>x = 0, y = - 3\<rparr>, scale := 3\<rparr>,
           status_RightRotateScale) \<and>
   y (rotation (earthControl_init\<lparr>rotation := \<lparr>x = 0, y = - 3\<rparr>, scale := 3\<rparr>)) \<noteq> 3"
  using hand_example_at(1) pinchDist_example hand_example_Right [of 1 1 "[]"]
  by simp

text \<open>
  C9. The claim has the initial position at the world origin; the source starts it at
  \<open>(-2.5, 0)\<close>. As amended: the control state starts with rotation \<open>(0, 0)\<close>, scale
  \<open>1\<close> and position \<open>(-2.5, 0)\<close>, and nothing resets it: after any run of frames
  from any state, the position is what it was or the mapped palm position of a pinching
  left hand of one of the frames, the rotation and the scale are what they were or the
  values mapped from a right hand of one of the frames, and the region label of the
  control state is what it was.
\<close>

theorem initial_state_and_no_reset:
  "rotation earthControl_init = \<lparr>x = 0, y = 0\<rparr> \<and> scale earthControl_init = 1 \<and>
   position earthControl_init = \<lparr>x = - 2.5, y = 0\<rparr> \<and>
   earthControl App_init = earthControl_init \<and>
   (\<forall>fs st.
      (position (earthControl (runFrames fs st)) = position (earthControl st) \<or>
       (\<exists>f \<in> set fs. dragged_to f (position (earthControl (runFrames fs st))))) \<and>
      (rotation (earthControl (runFrames fs st)) = rotation (earthControl st) \<and>
       scale (earthControl (runFrames fs st)) = scale (earthControl st) \<or>
       (\<exists>f \<in> set fs. turned_to f (rotation (earthControl (runFrames fs st)))
          (scale (earthControl (runFrames fs st))))) \<and>
      activeRegion (earthControl (runFrames fs st)) = activeRegion (earthControl st))"
proof -
  have "rotation earthControl_init = \<lparr>x = 0, y = 0\<rparr> \<and> scale earthControl_init = 1 \<and>
   position earthControl_init = \<lparr>x = - 2.5, y = 0\<rparr> \<and>
   earthControl App_init = earthControl_init"
    by (simp add: earthControl_init_def App_init_def)
  then show ?thesis
    using runFrames_attributed by blast
qed

theorem initial_state_and_no_reset_witness:
  "position (earthControl (runFrames [frame_of [hand_example] [[Right]]]
      (App_init\<lparr>earthControl := earthControl_init\<lparr>position := \<lparr>x = 1, y = 1\<rparr>\<rparr>\<rparr>))) =
   \<lparr>x = 1, y = 1\<rparr>"
proof -
  let ?st = "App_init\<lparr>earthControl := earthControl_init\<lparr>position := \<lparr>x = 1, y = 1\<rparr>\<rparr>\<rparr>"
  let ?fs = "[frame_of [hand_example] [[Right]]]"
  have n: "\<not> dragged_to (frame_of [hand_example] [[Right]]) pos" for pos
    by (simp add: dragged_to_def drag_from_def hand_at_def frame_of_def arr_at_def
        hand_example_def Right_def)
  have "position (earthControl (runFrames ?fs ?st)) = position (earthControl ?st) \<or>
       (\<exists>f \<in> set ?fs. dragged_to f (position (earthControl (runFrames ?fs ?st))))"
    using initial_state_and_no_reset by blast
  then have "position (earthControl (runFrames ?fs ?st)) = position (earthControl ?st)"
    using n by (simp del: runFrames.simps)
  then show ?thesis
    by (simp del: runFrames.simps)
qed

text \<open>
  The claim as stated fails: the initial position is not the origin.
\<close>

theorem initial_position_counterexample:
  "position earthControl_init = \<lparr>x = - 2.5, y = 0\<rparr> \<and>
   position earthControl_init \<noteq> \<lparr>x = 0, y = 0\<rparr>"
  by (simp add: earthControl_init_def)

text \<open>
  C10. The pinch distance is the Euclidean distance in the plane,
  \<open>sqrt ((x\<^sub>t - x\<^sub>i)\<^sup>2 + (y\<^sub>t - y\<^sub>i)\<^sup>2)\<close>, of the thumb tip (landmark 4) and the index
  fingertip (landmark 8): the scale a right hand writes is the clamp of that distance,
  a left hand counts as pinching exactly when that distance is below \<open>0.05\<close>, and
  changing the \<open>z\<close> of any landmarks of a frame changes neither the pinch distance
  nor anything of what the loop does with the frame.
\<close>

theorem z_is_ignored:
  assumes "list_all2 (list_all2 same_xy) (landmarks (result f)) lss'"
  shows "renderLoop (f\<lparr>result := (result f)\<lparr>landmarks := lss'\<rparr>\<rparr>) st = renderLoop f st \<and>
    (\<forall>thumbTip indexTip.
       pinchDist thumbTip indexTip =
         sqrt ((x thumbTip - x indexTip)\<^sup>2 + (y thumbTip - y indexTip)\<^sup>2)) \<and>
    (\<forall>thumbTip indexTip a b.
       pinchDist (thumbTip\<lparr>z := a\<rparr>) (indexTip\<lparr>z := b\<rparr>) = pinchDist thumbTip indexTip) \<and>
    (\<forall>vWidth vHeight lms cats cat palmCenter thumbTip indexTip c s.
       arr_at cats 0 = Some cat \<and> arr_at lms 9 = Some palmCenter \<and>
       arr_at lms 4 = Some thumbTip \<and> arr_at lms 8 = Some indexTip \<longrightarrow>
       (categoryName cat = ''Right'' \<longrightarrow>
          (\<exists>c' s'. handBody vWidth vHeight lms (Some cats) c s = Some (c', s') \<and>
             scale c' =
               max 0.5 (min 3.5 (0.5 +
                 sqrt ((x thumbTip - x indexTip)\<^sup>2 + (y thumbTip - y indexTip)\<^sup>2) * 10)))) \<and>
       (categoryName cat = ''Left'' \<longrightarrow>
          (\<exists>c' s'. handBody vWidth vHeight lms (Some cats) c s = Some (c', s') \<and>
             (s' = status_LeftDragging \<longleftrightarrow>
                sqrt ((x thumbTip - x indexTip)\<^sup>2 + (y thumbTip - y indexTip)\<^sup>2) < 0.05) \<and>
             (position c' \<noteq> position c \<longrightarrow>
                sqrt ((x thumbTip - x indexTip)\<^sup>2 + (y thumbTip - y indexTip)\<^sup>2) < 0.05))))"
proof -
  have "length lss' = length (landmarks (result f))"
    using assms by (simp add: list_all2_lengthD)
  then have a: "renderLoop (f\<lparr>result := (result f)\<lparr>landmarks := lss'\<rparr>\<rparr>) st = renderLoop f st"
    by (simp add: renderLoop_def Let_def forHands_same_xy [OF assms])
  have b: "pinchDist thumbTip indexTip =
         sqrt ((x thumbTip - x indexTip)\<^sup>2 + (y thumbTip - y indexTip)\<^sup>2)" for thumbTip indexTip
    by (simp add: pinchDist_def)
  have c: "pinchDist (thumbTip\<lparr>z := a\<rparr>) (indexTip\<lparr>z := b\<rparr>) = pinchDist thumbTip indexTip"
    for thumbTip indexTip a b
    by (simp add: pinchDist_def)
  have r: "\<exists>c' s'. handBody vWidth vHeight lms (Some cats) c s = Some (c', s') \<and>
             scale c' =
               max 0.5 (min 3.5 (0.5 +
                 sqrt ((x thumbTip - x indexTip)\<^sup>2 + (y thumbTip - y indexTip)\<^sup>2) * 10))"
    if "arr_at cats 0 = Some cat" "categoryName cat = ''Right''" "arr_at lms 9 = Some palmCenter"
       "arr_at lms 4 = Some thumbTip" "arr_at lms 8 = Some indexTip"
    for vWidth vHeight lms cats cat palmCenter thumbTip indexTip c s
    by (simp add: handBody_Right [OF that] newScale_def pinchDist_def)
  have l: "\<exists>c' s'. handBody vWidth vHeight lms (Some cats) c s = Some (c', s') \<and>
             (s' = status_LeftDragging \<longleftrightarrow>
                sqrt ((x thumbTip - x indexTip)\<^sup>2 + (y thumbTip - y indexTip)\<^sup>2) < 0.05) \<and>
             (position c' \<noteq> position c \<longrightarrow>
                sqrt ((x thumbTip - x indexTip)\<^sup>2 + (y thumbTip - y indexTip)\<^sup>2) < 0.05)"
    if "arr_at cats 0 = Some cat" "categoryName cat = ''Left''" "arr_at lms 9 = Some palmCenter"
       "arr_at lms 4 = Some thumbTip" "arr_at lms 8 = Some indexTip"
    for vWidth vHeight lms cats cat palmCenter thumbTip indexTip c s
    using status_Left_distinct by (simp add: handBody_Left [OF that] pinchDist_def)
  have d: "(categoryName cat = ''Right'' \<longrightarrow>
          (\<exists>c' s'. handBody vWidth vHeight lms (Some cats) c s = Some (c', s') \<and>
             scale c' =
               max 0.5 (min 3.5 (0.5 +
                 sqrt ((x thumbTip - x indexTip)\<^sup>2 + (y thumbTip - y indexTip)\<^sup>2) * 10)))) \<and>
       (categoryName cat = ''Left'' \<longrightarrow>
          (\<exists>c' s'. handBody vWidth vHeight lms (Some cats) c s = Some (c', s') \<and>
             (s' = status_LeftDragging \<longleftrightarrow>
                sqrt ((x thumbTip - x indexTip)\<^sup>2 + (y thumbTip - y indexTip)\<^sup>2) < 0.05) \<and>
             (position c' \<noteq> position c \<longrightarrow>
                sqrt ((x thumbTip - x indexTip)\<^sup>2 + (y thumbTip - y indexTip)\<^sup>2) < 0.05)))"
    if "arr_at cats 0 = Some cat \<and> arr_at lms 9 = Some palmCenter \<and>
       arr_at lms 4 = Some thumbTip \<and> arr_at lms 8 = Some indexTip"
    for vWidth vHeight lms cats cat palmCenter thumbTip indexTip c s
  proof (intro conjI impI)
    assume "categoryName cat = ''Right''"
    then show "\<exists>c' s'. handBody vWidth vHeight lms (Some cats) c s = Some (c', s') \<and>
             scale c' =
               max 0.5 (min 3.5 (0.5 +
                 sqrt ((x thumbTip - x indexTip)\<^sup>2 + (y thumbTip - y indexTip)\<^sup>2) * 10))"
      using r that by blast
  next
    assume "categoryName cat = ''Left''"
    then show "\<exists>c' s'. handBody vWidth vHeight lms (Some cats) c s = Some (c', s') \<and>
             (s' = status_LeftDragging \<longleftrightarrow>
                sqrt ((x thumbTip - x indexTip)\<^sup>2 + (y thumbTip - y indexTip)\<^sup>2) < 0.05) \<and>
             (position c' \<noteq> position c \<longrightarrow>
                sqrt ((x thumbTip - x indexTip)\<^sup>2 + (y thumbTip - y indexTip)\<^sup>2) < 0.05)"
      using l that by blast
  qed
  show ?thesis
    by (rule conjI [OF a conjI [OF allI [OF allI [OF b]]
          conjI [OF allI [OF allI [OF allI [OF allI [OF c]]]]]]]) (intro allI impI d)
qed

theorem z_is_ignored_witness:
  "renderLoop (frame_of [map (z_update (\<lambda>_. 7)) hand_example] [[Right]]) App_init =
   renderLoop (frame_of [hand_example] [[Right]]) App_init"
proof -
  have "list_all2 (list_all2 same_xy)
          (landmarks (result (frame_of [hand_example] [[Right]])))
          [map (z_update (\<lambda>_. 7)) hand_example]"
    by (simp add: frame_of_def hand_example_def same_xy_def lm_def)
  from z_is_ignored [OF this, of App_init] show ?thesis
    by (simp add: frame_of_def)
qed

end
